theory Spec2Isabelle
  imports Complex_Main "HOL-Library.Char_ord" "HOL-Library.List_Lexorder"
    "HOL-Library.Product_Lexorder"
begin

section \<open>Messages: nested JSON lookup (transport/message.py)\<close>

text \<open>
  \<^verbatim>\<open>JSONValue = Union[str, int, float, bool, None, JSONDict, JSONList]\<close>.
  A dictionary is kept as an association list read with \<open>map_of\<close>; numbers are
  rationals.
\<close>

datatype json =
    JNull
  | JBool bool
  | JNum rat
  | JStr string
  | JList "json list"
  | JDict "(string \<times> json) list"

text \<open>
  The exceptions of the modelled code. \<open>KeyError\<close> carries the argument it was
  raised with (a path, or the single key of a failed dictionary access);
  \<open>IntegrityError\<close> is the database driver's constraint violation.
\<close>

datatype error =
    KeyError "string list"
  | ValueError
  | IndexError
  | IntegrityError

text \<open>\<^verbatim>\<open>data[key]\<close> on a dict: raises \<^verbatim>\<open>KeyError(key)\<close> when the key is missing.\<close>

definition dict_getitem :: "(string \<times> json) list \<Rightarrow> string \<Rightarrow> error + json" where
  "dict_getitem d key = (case map_of d key of None \<Rightarrow> Inl (KeyError [key]) | Some v \<Rightarrow> Inr v)"

text \<open>
  \<^verbatim>\<open>data[int(key)]\<close> on a list. The built-in \<^verbatim>\<open>int\<close> is a parameter \<open>to_int\<close>
  (\<open>None\<close> where it raises \<^verbatim>\<open>ValueError\<close>); list indexing accepts negative indices
  counted from the end and raises \<^verbatim>\<open>IndexError\<close> out of range.
\<close>

definition list_getitem :: "(string \<Rightarrow> int option) \<Rightarrow> json list \<Rightarrow> string \<Rightarrow> error + json" where
  "list_getitem to_int xs key =
     (case to_int key of
        None \<Rightarrow> Inl ValueError
      | Some i \<Rightarrow>
          if - int (length xs) \<le> i \<and> i < int (length xs)
          then Inr (xs ! nat (if i < 0 then i + int (length xs) else i))
          else Inl IndexError)"

text \<open>
  \<^verbatim>\<open>get(data, field)\<close>: every \<^verbatim>\<open>except\<close> clause of the source is a branch here. The
  dict branch catches \<^verbatim>\<open>KeyError\<close>, the list branch catches \<^verbatim>\<open>ValueError\<close> and
  \<^verbatim>\<open>IndexError\<close>, the recursive call is wrapped in \<^verbatim>\<open>except KeyError\<close>; anything
  else would propagate unchanged.
\<close>

fun get :: "(string \<Rightarrow> int option) \<Rightarrow> json \<Rightarrow> string list \<Rightarrow> error + json" where
  "get to_int data [] = Inr data"
| "get to_int data (key # remaining) =
     (case
        (case data of
           JDict d \<Rightarrow>
             (case dict_getitem d key of
                Inl (KeyError _) \<Rightarrow> Inl (KeyError (key # remaining))
              | Inl e \<Rightarrow> Inl e
              | Inr target \<Rightarrow> Inr target)
         | JList xs \<Rightarrow>
             (case list_getitem to_int xs key of
                Inl ValueError \<Rightarrow> Inl (KeyError (key # remaining))
              | Inl IndexError \<Rightarrow> Inl (KeyError (key # remaining))
              | Inl e \<Rightarrow> Inl e
              | Inr target \<Rightarrow> Inr target)
         | _ \<Rightarrow> Inl (KeyError (key # remaining)))
      of
        Inl e \<Rightarrow> Inl e
      | Inr target \<Rightarrow>
          (case get to_int target remaining of
             Inl (KeyError _) \<Rightarrow> Inl (KeyError (key # remaining))
           | Inl e \<Rightarrow> Inl e
           | Inr v \<Rightarrow> Inr v))"

text \<open>\<^verbatim>\<open>class Message(NamedTuple)\<close>: id (the UUID as an integer), timestamp, data.\<close>

record Message =
  msg_id :: int
  msg_timestamp :: int
  msg_data :: json

text \<open>An item is a single string or a sequence of strings.\<close>

datatype item = ItemStr string | ItemSeq "string list"

fun item_path :: "item \<Rightarrow> string list" where
  "item_path (ItemStr s) = [s]"
| "item_path (ItemSeq p) = p"

definition Message_getitem :: "(string \<Rightarrow> int option) \<Rightarrow> Message \<Rightarrow> item \<Rightarrow> error + json" where
  "Message_getitem to_int m it = get to_int (msg_data m) (item_path it)"

definition Message_contains :: "(string \<Rightarrow> int option) \<Rightarrow> Message \<Rightarrow> item \<Rightarrow> error + bool" where
  "Message_contains to_int m it =
     (case Message_getitem to_int m it of
        Inr _ \<Rightarrow> Inr True
      | Inl (KeyError _) \<Rightarrow> Inr False
      | Inl e \<Rightarrow> Inl e)"

definition Message_get :: "(string \<Rightarrow> int option) \<Rightarrow> Message \<Rightarrow> item \<Rightarrow> json \<Rightarrow> error + json" where
  "Message_get to_int m it dflt =
     (case Message_getitem to_int m it of
        Inr v \<Rightarrow> Inr v
      | Inl (KeyError _) \<Rightarrow> Inr dflt
      | Inl e \<Rightarrow> Inl e)"

text \<open>
  What it means for a path to resolve, written independently of the exception
  handling: each key must be present in a dictionary, or parse to an integer that is
  a valid (possibly negative) index of a list; any other intermediate value does not
  resolve.
\<close>

fun resolve :: "(string \<Rightarrow> int option) \<Rightarrow> json \<Rightarrow> string list \<Rightarrow> json option" where
  "resolve to_int data [] = Some data"
| "resolve to_int (JDict d) (key # remaining) =
     (case map_of d key of None \<Rightarrow> None | Some t \<Rightarrow> resolve to_int t remaining)"
| "resolve to_int (JList xs) (key # remaining) =
     (case to_int key of
        None \<Rightarrow> None
      | Some i \<Rightarrow>
          if 0 \<le> i \<and> i < int (length xs) then resolve to_int (xs ! nat i) remaining
          else if i < 0 \<and> 0 \<le> int (length xs) + i
            then resolve to_int (xs ! nat (int (length xs) + i)) remaining
          else None)"
| "resolve to_int _ (key # remaining) = None"

text \<open>A decimal parser for plain ASCII digit strings with an optional sign, used to run the model.\<close>

fun digits_val :: "string \<Rightarrow> nat \<Rightarrow> nat option" where
  "digits_val [] acc = Some acc"
| "digits_val (c # cs) acc =
     (if CHR ''0'' \<le> c \<and> c \<le> CHR ''9''
      then digits_val cs (10 * acc + (of_char c - of_char CHR ''0''))
      else None)"

definition dec_int :: "string \<Rightarrow> int option" where
  "dec_int s =
     (case s of
        [] \<Rightarrow> None
      | c # cs \<Rightarrow>
          if c = CHR ''-'' then (if cs = [] then None else map_option (\<lambda>n. - int n) (digits_val cs 0))
          else if c = CHR ''+'' then (if cs = [] then None else map_option int (digits_val cs 0))
          else map_option int (digits_val s 0))"

section \<open>Data frames of the scoring stage (profile/reporters.py, profile/base.py)\<close>

text \<open>
  A data frame is the list of its rows, in index order. The message value frame has
  the columns \<^verbatim>\<open>profile_id, message_id, timestamp, actor_id, field_id, value\<close>; the
  feature frame \<^verbatim>\<open>feature_id, field_id, actor_id, value, count\<close>. Timestamps are
  integers (only their order is used), float columns are rationals.
\<close>

record value_row =
  profile_id :: int
  message_id :: int
  timestamp :: int
  actor_id :: int
  field_id :: int
  val :: string

record feature_row =
  feature_id :: int
  f_field_id :: int
  f_actor_id :: int
  f_val :: string
  f_count :: int

text \<open>
  The working frame of a reporter: the value columns and the statistics columns that
  the reporters add. A column that a reporter never creates stays 0 and is never read
  by it (\<open>null_count\<close> in Mandatory; \<open>groups\<close>, \<open>mean\<close>, \<open>previous_mean\<close> in
  Optional).
\<close>

record frame_row = value_row +
  groups :: rat
  total :: rat
  mean :: rat
  count :: rat
  previous_mean :: rat
  null_count :: rat
  score :: rat


subsection \<open>Frame operations\<close>

text \<open>\<^verbatim>\<open>drop_duplicates()\<close> keeps the first occurrence of each row.\<close>

definition drop_duplicates :: "'a list \<Rightarrow> 'a list" where
  "drop_duplicates xs = rev (remdups (rev xs))"

text \<open>
  \<^verbatim>\<open>left.merge(right, 'left', left_on=..., right_index=True)\<close>: every left row, in
  order, once per right row with its key, or once with missing values (\<open>None\<close>) when
  no right row has the key.
\<close>

definition merge_left ::
  "('l \<Rightarrow> 'k) \<Rightarrow> ('k \<times> 'v) list \<Rightarrow> ('l \<Rightarrow> 'v option \<Rightarrow> 'o) \<Rightarrow> 'l list \<Rightarrow> 'o list" where
  "merge_left key right combine left =
     concat (map (\<lambda>l. case filter (\<lambda>(k, v). k = key l) right of
                          [] \<Rightarrow> [combine l None]
                        | ms \<Rightarrow> map (\<lambda>(k, v). combine l (Some v)) ms) left)"

text \<open>\<^verbatim>\<open>fillna(0)\<close> on one cell.\<close>

definition fillna :: "rat option \<Rightarrow> rat" where
  "fillna x = (case x of None \<Rightarrow> 0 | Some v \<Rightarrow> v)"

text \<open>
  \<^verbatim>\<open>groupby(keys).agg(first=('index', 'first'))\<close> looked up for one key: the position
  of the first row of the group.
\<close>

fun first_index :: "('a \<Rightarrow> bool) \<Rightarrow> 'a list \<Rightarrow> nat" where
  "first_index P [] = 0"
| "first_index P (x # xs) = (if P x then 0 else Suc (first_index P xs))"

text \<open>
  \<^verbatim>\<open>increment_total\<close>: sort by (actor_id, timestamp) with a fresh index, then add to
  \<^verbatim>\<open>total\<close> the distance of the row from the first row of its actor. The
  multi-column \<^verbatim>\<open>sort_values\<close> is stable, as \<open>sort_key\<close> is.
\<close>

definition increment_total :: "frame_row list \<Rightarrow> frame_row list" where
  "increment_total values =
     (let df = sort_key (\<lambda>r. (actor_id r, timestamp r)) values
      in map (\<lambda>(index, r).
                r\<lparr>total := total r
                       + (of_nat index - of_nat (first_index (\<lambda>x. actor_id x = actor_id r) df))\<rparr>)
             (enumerate 0 df))"

text \<open>
  \<^verbatim>\<open>increment_count\<close>: sort by (actor_id, value, timestamp), then add to \<^verbatim>\<open>count\<close>
  the distance of the row from the first row of its (actor, value) group.
\<close>

definition increment_count :: "frame_row list \<Rightarrow> frame_row list" where
  "increment_count values =
     (let df = sort_key (\<lambda>r. (actor_id r, val r, timestamp r)) values
      in map (\<lambda>(index, r).
                r\<lparr>count := count r
                       + (of_nat index
                          - of_nat (first_index (\<lambda>x. (actor_id x, val x) = (actor_id r, val r)) df))\<rparr>)
             (enumerate 0 df))"

definition fa_key :: "feature_row \<Rightarrow> int \<times> int" where
  "fa_key f = (f_field_id f, f_actor_id f)"

definition fav_key :: "feature_row \<Rightarrow> int \<times> int \<times> string" where
  "fav_key f = (f_field_id f, f_actor_id f, f_val f)"

text \<open>
  \<^verbatim>\<open>features[features_by_fa.index.isin(unique_fa_idx)]\<close>: the features of the
  (field, actor) pairs that occur in the values.
\<close>

definition matching_features :: "value_row list \<Rightarrow> feature_row list \<Rightarrow> feature_row list" where
  "matching_features values features =
     (let unique_fa = drop_duplicates (map (\<lambda>r. (field_id r, actor_id r)) values)
      in filter (\<lambda>f. fa_key f \<in> set unique_fa) features)"

text \<open>\<^verbatim>\<open>groupby(['field_id', 'actor_id'])\<close>: the groups, by ascending key.\<close>

definition groupby_fa :: "feature_row list \<Rightarrow> ((int \<times> int) \<times> feature_row list) list" where
  "groupby_fa fs = map (\<lambda>k. (k, filter (\<lambda>f. fa_key f = k) fs)) (sort (remdups (map fa_key fs)))"

subsection \<open>The Mandatory reporter\<close>

text \<open>
  \<^verbatim>\<open>agg(groups=('value', 'count'), total=('count', 'sum'), mean=('count', 'mean'))\<close>
  for each (field, actor) group.
\<close>

definition mandatory_fa_agg :: "feature_row list \<Rightarrow> ((int \<times> int) \<times> (rat \<times> rat \<times> rat)) list" where
  "mandatory_fa_agg fs =
     map (\<lambda>(k, g). (k, (of_nat (length g),
                          of_int (sum_list (map f_count g)),
                          of_int (sum_list (map f_count g)) / of_nat (length g))))
         (groupby_fa fs)"

text \<open>
  The two left merges of \<^verbatim>\<open>Mandatory.__call__\<close> followed by \<^verbatim>\<open>fillna(0)\<close>: the
  per-actor aggregates on (field_id, actor_id), then the feature count on
  (field_id, actor_id, value).
\<close>

definition mandatory_merged :: "value_row list \<Rightarrow> feature_row list \<Rightarrow> frame_row list" where
  "mandatory_merged values features =
     (let feature_fa_agg = mandatory_fa_agg (matching_features values features);
          feature_fav_agg = map (\<lambda>f. (fav_key f, of_int (f_count f))) features;
          df = merge_left (\<lambda>r. (field_id r, actor_id r)) feature_fa_agg (\<lambda>r agg. (r, agg)) values;
          df = merge_left (\<lambda>(r, agg). (field_id r, actor_id r, val r)) feature_fav_agg
                 (\<lambda>(r, agg) c. (r, agg, c)) df
      in map (\<lambda>(r, agg, c).
                value_row.extend r
                  (frame_row.fields
                     (fillna (map_option fst agg))
                     (fillna (map_option (fst \<circ> snd) agg))
                     (fillna (map_option (snd \<circ> snd) agg))
                     (fillna c) 0 0 0)) df)"

text \<open>
  \<^verbatim>\<open>previous_mean\<close>: 0, overwritten where \<^verbatim>\<open>groups > 1\<close> by the mean of the other
  groups (\<^verbatim>\<open>count != 0\<close>) or by the mean itself (\<^verbatim>\<open>count == 0\<close>). Every masked
  assignment \<^verbatim>\<open>df.loc[mask, col] = expr\<close> is a map over the rows.
\<close>

definition set_previous_mean :: "frame_row list \<Rightarrow> frame_row list" where
  "set_previous_mean df =
     (let df = map (\<lambda>r. r\<lparr>previous_mean := 0\<rparr>) df;
          df = map (\<lambda>r. if groups r > 1 \<and> count r \<noteq> 0
                          then r\<lparr>previous_mean := (mean r * groups r - count r) / (groups r - 1)\<rparr>
                          else r) df;
          df = map (\<lambda>r. if groups r > 1 \<and> count r = 0
                          then r\<lparr>previous_mean := mean r\<rparr>
                          else r) df
      in df)"

text \<open>
  \<^verbatim>\<open>df.apply(self._update_groups(), axis=1)\<close>: the callback runs over the rows in
  order and keeps \<^verbatim>\<open>section\<close> and \<^verbatim>\<open>counter\<close> between calls (initially -1 and 0).
\<close>

fun update_groups :: "int \<Rightarrow> nat \<Rightarrow> frame_row list \<Rightarrow> frame_row list" where
  "update_groups section counter [] = []"
| "update_groups section counter (x # xs) =
     (let counter = (if actor_id x \<noteq> section then 0 else counter);
          section = actor_id x;
          x' = (if counter \<noteq> 0 then x\<lparr>groups := groups x + of_nat counter\<rparr> else x);
          counter = (if count x = 0 then counter + 1 else counter)
      in x' # update_groups section counter xs)"

text \<open>The frame after \<^verbatim>\<open>increment_count\<close> and \<^verbatim>\<open>increment_total\<close>.\<close>

definition mandatory_incremented :: "value_row list \<Rightarrow> feature_row list \<Rightarrow> frame_row list" where
  "mandatory_incremented values features =
     (let df = set_previous_mean (mandatory_merged values features);
          df = increment_count df;
          df = increment_total df
      in df)"

text \<open>The frame on which the scores are computed: groups updated, then the mean.\<close>

definition mandatory_frame :: "value_row list \<Rightarrow> feature_row list \<Rightarrow> frame_row list" where
  "mandatory_frame values features =
     (let df = mandatory_incremented values features;
          df = update_groups (- 1) 0 df;
          df = map (\<lambda>r. if groups r > 0
                          then r\<lparr>mean := previous_mean r + (count r - previous_mean r) / groups r\<rparr>
                          else r) df
      in df)"




subsection \<open>The Optional reporter\<close>








subsection \<open>Feature counts (profile/base.py)\<close>





text \<open>Rows to run the model on.\<close>

definition example_value :: "int \<Rightarrow> int \<Rightarrow> int \<Rightarrow> string \<Rightarrow> value_row" where
  "example_value m t a s =
     \<lparr>profile_id = 1, message_id = m, timestamp = t, actor_id = a, field_id = 1, val = s\<rparr>"

definition example_feature :: "int \<Rightarrow> int \<Rightarrow> string \<Rightarrow> int \<Rightarrow> feature_row" where
  "example_feature i a s c =
     \<lparr>feature_id = i, f_field_id = 1, f_actor_id = a, f_val = s, f_count = c\<rparr>"

section \<open>The exponential decay analyzer (profile/analyzers.py)\<close>








section \<open>The pipeline process cycle (pipline/base.py, profile/base.py)\<close>

text \<open>
  The rows that \<^verbatim>\<open>Profile.identify\<close> yields:
  \<^verbatim>\<open>message_id, timestamp, actor_name, field_id, value, profile_id\<close>.
\<close>

record identified_row =
  i_message_id :: int
  i_timestamp :: int
  i_actor_name :: string
  i_field_id :: int
  i_value :: string
  i_profile_id :: int

text \<open>
  A synced profile: the id of its model, its \<^verbatim>\<open>matches\<close> predicate, and the outcome
  of \<^verbatim>\<open>_get_actor_name\<close> and, for each field with its model id, of
  \<^verbatim>\<open>_get_field_value\<close> on a message (\<open>None\<close> where the source raises, which
  \<^verbatim>\<open>_generate_rows\<close> logs and skips).
\<close>

record profile =
  model_id :: int
  matches :: "Message \<Rightarrow> bool"
  get_actor_name :: "Message \<Rightarrow> string option"
  profile_fields :: "(int \<times> (Message \<Rightarrow> string option)) list"

definition generate_rows ::
  "profile \<Rightarrow> Message list \<Rightarrow> (int \<times> int \<times> string \<times> int \<times> string) list" where
  "generate_rows p messages =
     concat (map (\<lambda>message.
        if \<not> matches p message then []
        else (case get_actor_name p message of
                None \<Rightarrow> []
              | Some actor_name \<Rightarrow>
                  concat (map (\<lambda>(field_id, get_field_value).
                     case get_field_value message of
                       None \<Rightarrow> []
                     | Some v \<Rightarrow> [(msg_id message, msg_timestamp message, actor_name, field_id, v)])
                   (profile_fields p)))) messages)"

definition identify :: "profile \<Rightarrow> Message list \<Rightarrow> identified_row list" where
  "identify p messages =
     map (\<lambda>(m, t, a, f, v).
            \<lparr>i_message_id = m, i_timestamp = t, i_actor_name = a, i_field_id = f, i_value = v,
             i_profile_id = model_id p\<rparr>)
         (generate_rows p messages)"

text \<open>\<^verbatim>\<open>pa.concat(dfs, ignore_index=True)\<close>: raises ValueError on an empty list of frames.\<close>

definition pa_concat :: "'a list list \<Rightarrow> error + 'a list" where
  "pa_concat dfs = (if dfs = [] then Inl ValueError else Inr (concat dfs))"

text \<open>
  The value table of \<^verbatim>\<open>Pipeline._process\<close> as the later steps receive it:
  \<^verbatim>\<open>
  values = pa.concat(dfs, ignore_index=True)
  values.sort_values('timestamp', ignore_index=True)
  \<close>
  \<^verbatim>\<open>sort_values\<close> returns a new frame and leaves \<^verbatim>\<open>values\<close> as it is; the source
  does not bind the result.
\<close>

definition process_values :: "profile list \<Rightarrow> Message list \<Rightarrow> error + identified_row list" where
  "process_values profiles messages =
     (case pa_concat (map (\<lambda>p. identify p messages) profiles) of
        Inl e \<Rightarrow> Inl e
      | Inr values \<Rightarrow>
          (let unused = sort_key i_timestamp values
           in Inr values))"

text \<open>The actor table, with the next value of its id sequence.\<close>

record actor_row =
  a_actor_id :: int
  a_profile_id :: int
  a_name :: string

record actor_table =
  actor_rows :: "actor_row list"
  next_actor_id :: int

text \<open>One row of an insert with \<^verbatim>\<open>on_conflict_do_nothing\<close> on (profile_id, name).\<close>

definition insert_actor_do_nothing :: "actor_table \<Rightarrow> int \<times> string \<Rightarrow> actor_table" where
  "insert_actor_do_nothing tab row =
     (if row \<in> set (map (\<lambda>a. (a_profile_id a, a_name a)) (actor_rows tab))
      then tab\<lparr>next_actor_id := next_actor_id tab + 1\<rparr>
      else \<lparr>actor_rows = actor_rows tab
                @ [\<lparr>a_actor_id = next_actor_id tab, a_profile_id = fst row, a_name = snd row\<rparr>],
            next_actor_id = next_actor_id tab + 1\<rparr>)"

text \<open>
  \<^verbatim>\<open>session.execute(pg.insert(db.Actor.__table__).values(rows).on_conflict_do_nothing(...))\<close>.
  \<^verbatim>\<open>_get_actors\<close> executes the statement whatever the list holds. An INSERT has no
  form that inserts zero rows: with an empty list, \<^verbatim>\<open>values([])\<close> carries no
  parameters and the pinned SQLAlchemy 1.3 renders \<^verbatim>\<open>INSERT INTO actor DEFAULT VALUES\<close>,
  one row of column defaults, which the NOT NULL columns \<^verbatim>\<open>profile_id\<close> and
  \<^verbatim>\<open>name\<close> reject with an IntegrityError (ON CONFLICT DO NOTHING covers only the
  unique constraint). The other inserts of the cycle are guarded against empty lists
  (\<^verbatim>\<open>if values.empty\<close>, \<^verbatim>\<open>if message_values\<close>, \<^verbatim>\<open>if events\<close>); this one is not.
\<close>

definition execute_actor_insert :: "(int \<times> string) list \<Rightarrow> actor_table \<Rightarrow> error + actor_table" where
  "execute_actor_insert rows tab =
     (if rows = [] then Inl IntegrityError else Inr (foldl insert_actor_do_nothing tab rows))"

text \<open>
  \<^verbatim>\<open>_get_actors\<close>: upsert the unique (profile_id, actor_name) pairs, commit, and
  select the actors back.
\<close>

definition get_actors ::
  "actor_table \<Rightarrow> identified_row list \<Rightarrow> error + (actor_table \<times> actor_row list)" where
  "get_actors tab values =
     (let unique_pa = drop_duplicates (map (\<lambda>r. (i_profile_id r, i_actor_name r)) values)
      in case execute_actor_insert unique_pa tab of
           Inl e \<Rightarrow> Inl e
         | Inr tab' \<Rightarrow>
             Inr (tab', filter (\<lambda>a. a_profile_id a \<in> set (drop_duplicates (map fst unique_pa))
                                   \<and> a_name a \<in> set (drop_duplicates (map snd unique_pa)))
                               (actor_rows tab')))"

text \<open>
  The first block of \<^verbatim>\<open>Pipeline._process\<close>: identify, concatenate, and sync the
  actors. An exception here leaves the managed session through its rollback and ends
  the cycle.
\<close>

definition process_actor_sync ::
  "profile list \<Rightarrow> Message list \<Rightarrow> actor_table
     \<Rightarrow> error + (actor_table \<times> identified_row list \<times> actor_row list)" where
  "process_actor_sync profiles messages tab =
     (case process_values profiles messages of
        Inl e \<Rightarrow> Inl e
      | Inr values \<Rightarrow>
          (case get_actors tab values of
             Inl e \<Rightarrow> Inl e
           | Inr (tab', actors) \<Rightarrow> Inr (tab', values, actors)))"

text \<open>A profile with one field, and messages, to run the model on.\<close>

definition example_profile :: profile where
  "example_profile =
     \<lparr>model_id = 1,
      matches = (\<lambda>m. True),
      get_actor_name = (\<lambda>m. Some ''George''),
      profile_fields = [(1, \<lambda>m. Some ''hello'')]\<rparr>"

definition example_message :: "int \<Rightarrow> int \<Rightarrow> Message" where
  "example_message i t = \<lparr>msg_id = i, msg_timestamp = t, msg_data = JNull\<rparr>"

section \<open>The time range collector (profile/collectors.py)\<close>

















section \<open>Claiming investigations (investigator/base.py, database.py)\<close>














section \<open>Theorems\<close>

lemma get_resolve:
  "get to_int data field =
     (case resolve to_int data field of Some v \<Rightarrow> Inr v | None \<Rightarrow> Inl (KeyError field))"
proof (induction to_int data field rule: resolve.induct)
  case (1 to_int data)
  show ?case by simp
next
  case (2 to_int d key remaining)
  show ?case
  proof (cases "map_of d key")
    case None
    then show ?thesis by (simp add: dict_getitem_def)
  next
    case (Some t)
    with 2 show ?thesis
      by (simp add: dict_getitem_def split: option.splits sum.splits error.splits)
  qed
next
  case (3 to_int xs key remaining)
  show ?case
  proof (cases "to_int key")
    case None
    then show ?thesis by (simp add: list_getitem_def)
  next
    case (Some i)
    consider "0 \<le> i \<and> i < int (length xs)" | "i < 0 \<and> 0 \<le> int (length xs) + i"
      | "\<not> (- int (length xs) \<le> i \<and> i < int (length xs))"
      by linarith
    then show ?thesis
    proof cases
      case 1
      with 3(1)[OF Some] Some show ?thesis
        by (simp add: list_getitem_def split: option.splits sum.splits error.splits)
    next
      case 2
      then have n: "\<not> (0 \<le> i \<and> i < int (length xs))" by simp
      from 2 have r: "- int (length xs) \<le> i \<and> i < int (length xs)" by linarith
      from 3(2)[OF Some n 2] Some 2 r show ?thesis
        by (simp add: list_getitem_def add.commute split: option.splits sum.splits error.splits)
    next
      case 3
      then have c: "(- int (length xs) \<le> i \<and> i < int (length xs)) = False"
        and a: "(0 \<le> i \<and> i < int (length xs)) = False"
        and b: "(i < 0 \<and> 0 \<le> int (length xs) + i) = False"
        by auto
      show ?thesis
        by (simp add: list_getitem_def Some a b c)
    qed
  qed
qed simp_all

text \<open>
  C10. For every message and every path (a string or a sequence of strings),
  \<open>path in message\<close> returns a boolean (true exactly when the path resolves) and
  \<open>message.get(path, default)\<close> returns the stored value when the path resolves and
  the default otherwise; neither raises. The only exception that indexing produces
  is a KeyError carrying the full path, whatever went wrong inside (a missing key, an
  index that does not parse or is out of range, a value that is not a container).
\<close>

theorem message_lookup_total:
  "Message_contains to_int m it = Inr (resolve to_int (msg_data m) (item_path it) \<noteq> None)
   \<and> Message_get to_int m it dflt =
       Inr (case resolve to_int (msg_data m) (item_path it) of Some v \<Rightarrow> v | None \<Rightarrow> dflt)
   \<and> Message_getitem to_int m it =
       (case resolve to_int (msg_data m) (item_path it) of
          Some v \<Rightarrow> Inr v
        | None \<Rightarrow> Inl (KeyError (item_path it)))"
  by (simp add: Message_contains_def Message_get_def Message_getitem_def get_resolve
      split: option.splits)

theorem message_lookup_total_witness:
  "Message_contains dec_int
       \<lparr>msg_id = 1, msg_timestamp = 0,
        msg_data = JDict [(''nested'', JDict [(''value'', JStr ''here''), (''integer'', JNum 5)]),
                          (''array'', JList [JNum 6, JDict [(''surprise'', JStr ''value'')]])]\<rparr>
       (ItemSeq [''array'', ''1'', ''surprise'']) = Inr True
   \<and> Message_get dec_int
       \<lparr>msg_id = 1, msg_timestamp = 0,
        msg_data = JDict [(''nested'', JDict [(''value'', JStr ''here''), (''integer'', JNum 5)]),
                          (''array'', JList [JNum 6, JDict [(''surprise'', JStr ''value'')]])]\<rparr>
       (ItemSeq [''array'', ''2'']) JNull = Inr JNull
   \<and> Message_getitem dec_int
       \<lparr>msg_id = 1, msg_timestamp = 0,
        msg_data = JDict [(''nested'', JDict [(''value'', JStr ''here''), (''integer'', JNum 5)]),
                          (''array'', JList [JNum 6, JDict [(''surprise'', JStr ''value'')]])]\<rparr>
       (ItemStr ''missing'') = Inl (KeyError [''missing''])"
proof -
  let ?data = "JDict [(''nested'', JDict [(''value'', JStr ''here''), (''integer'', JNum 5)]),
                      (''array'', JList [JNum 6, JDict [(''surprise'', JStr ''value'')]])]"
  let ?m = "\<lparr>msg_id = 1, msg_timestamp = 0, msg_data = ?data\<rparr>"
  have r1: "resolve dec_int ?data [''array'', ''1'', ''surprise''] = Some (JStr ''value'')"
    by (simp add: dec_int_def)
  have r2: "resolve dec_int ?data [''array'', ''2''] = None"
    by (simp add: dec_int_def)
  have r3: "resolve dec_int ?data [''missing''] = None"
    by simp
  from message_lookup_total[of dec_int ?m "ItemSeq [''array'', ''1'', ''surprise'']" JNull] r1
  have 1: "Message_contains dec_int ?m (ItemSeq [''array'', ''1'', ''surprise'']) = Inr True"
    by simp
  from message_lookup_total[of dec_int ?m "ItemSeq [''array'', ''2'']" JNull] r2
  have 2: "Message_get dec_int ?m (ItemSeq [''array'', ''2'']) JNull = Inr JNull"
    by simp
  from message_lookup_total[of dec_int ?m "ItemStr ''missing''" JNull] r3
  have 3: "Message_getitem dec_int ?m (ItemStr ''missing'') = Inl (KeyError [''missing''])"
    by simp
  from 1 2 3 show ?thesis by blast
qed

subsection \<open>Reporter scores\<close>













subsection \<open>The groups column of the Mandatory reporter\<close>

lemma length_update_groups: "length (update_groups s c xs) = length xs"
  by (induction xs arbitrary: s c) (auto simp: Let_def)

lemma update_groups_nth:
  assumes "sorted (map actor_id xs)" and "c = 0 \<or> (\<forall>x \<in> set xs. s \<le> actor_id x)" and "i < length xs"
  shows "groups (update_groups s c xs ! i) =
           groups (xs ! i)
           + of_nat ((if actor_id (xs ! i) = s then c else 0)
                     + length (filter (\<lambda>r. actor_id r = actor_id (xs ! i) \<and> count r = 0) (take i xs)))"
  using assms
proof (induction xs arbitrary: s c i)
  case Nil
  then show ?case by simp
next
  case (Cons x xs)
  let ?c1 = "if actor_id x \<noteq> s then 0 else c"
  let ?c2 = "if count x = 0 then ?c1 + 1 else ?c1"
  show ?case
  proof (cases i)
    case 0
    then show ?thesis by (simp add: Let_def)
  next
    case (Suc k)
    with Cons.prems have k: "k < length xs" by simp
    from Cons.prems(1) have srt: "sorted (map actor_id xs)" and ge: "\<forall>y \<in> set xs. actor_id x \<le> actor_id y"
      by auto
    have IH: "groups (update_groups (actor_id x) ?c2 xs ! k) =
           groups (xs ! k)
           + of_nat ((if actor_id (xs ! k) = actor_id x then ?c2 else 0)
                     + length (filter (\<lambda>r. actor_id r = actor_id (xs ! k) \<and> count r = 0) (take k xs)))"
      by (rule Cons.IH[OF srt _ k]) (use ge in simp)
    have xk: "xs ! k \<in> set xs" using k by simp
    have key: "(if actor_id (xs ! k) = actor_id x then ?c2 else 0)
             = (if actor_id (xs ! k) = s then c else 0)
               + (if actor_id x = actor_id (xs ! k) \<and> count x = 0 then 1 else 0)"
    proof (cases "actor_id (xs ! k) = actor_id x")
      case True
      then show ?thesis by auto
    next
      case False
      with ge xk have lt: "actor_id x < actor_id (xs ! k)" by force
      have "actor_id (xs ! k) = s \<longrightarrow> c = 0"
      proof
        assume e: "actor_id (xs ! k) = s"
        show "c = 0"
        proof (rule ccontr)
          assume "c \<noteq> 0"
          with Cons.prems(2) have "s \<le> actor_id x" by simp
          with lt e show False by simp
        qed
      qed
      with False show ?thesis by auto
    qed
    have "groups (update_groups s c (x # xs) ! i) = groups (update_groups (actor_id x) ?c2 xs ! k)"
      using Suc by (simp add: Let_def)
    also note IH
    finally show ?thesis using Suc key by (simp add: Let_def)
  qed
qed

lemma map_actor_increment_total:
  "map actor_id (increment_total df) = map actor_id (sort_key (\<lambda>r. (actor_id r, timestamp r)) df)"
proof -
  have "map actor_id (increment_total df)
      = map (actor_id \<circ> snd) (enumerate 0 (sort_key (\<lambda>r. (actor_id r, timestamp r)) df))"
    by (auto simp: increment_total_def Let_def)
  also have "\<dots> = map actor_id (sort_key (\<lambda>r. (actor_id r, timestamp r)) df)"
    by (simp flip: map_map)
  finally show ?thesis .
qed

lemma sorted_map_fst: "sorted (map f xs) \<Longrightarrow> sorted (map (fst \<circ> f) xs)"
  for f :: "'a \<Rightarrow> int \<times> int"
  by (induction xs) (auto simp: less_eq_prod_def)

lemma sorted_actor_increment_total: "sorted (map actor_id (increment_total df))"
proof -
  have "sorted (map (fst \<circ> (\<lambda>r. (actor_id r, timestamp r))) (sort_key (\<lambda>r. (actor_id r, timestamp r)) df))"
    by (rule sorted_map_fst) simp
  then show ?thesis by (simp add: map_actor_increment_total comp_def)
qed

text \<open>
  C4, as the code has it. In the frame on which the Mandatory scores are computed,
  the groups of a row are its groups after the merges plus the number of earlier rows
  of the same actor partition whose count is 0 (a value that appears for the first
  time in the batch, without a feature). The row where such a value appears is not
  itself counted: only the rows after it see the increment. The increments are in
  place before any score is computed.
\<close>

theorem update_groups_later_rows:
  assumes "i < length (mandatory_incremented values features)"
  shows "groups (mandatory_frame values features ! i) =
           groups (mandatory_incremented values features ! i)
           + of_nat (length (filter (\<lambda>r. actor_id r = actor_id (mandatory_incremented values features ! i)
                                          \<and> count r = 0)
                               (take i (mandatory_incremented values features))))"
proof -
  let ?pre = "mandatory_incremented values features"
  have srt: "sorted (map actor_id ?pre)"
    by (simp add: mandatory_incremented_def Let_def sorted_actor_increment_total)
  have "groups (mandatory_frame values features ! i) = groups (update_groups (- 1) 0 ?pre ! i)"
    using assms by (simp add: mandatory_frame_def Let_def length_update_groups)
  also have "\<dots> = groups (?pre ! i)
           + of_nat ((if actor_id (?pre ! i) = - 1 then 0 else 0)
               + length (filter (\<lambda>r. actor_id r = actor_id (?pre ! i) \<and> count r = 0) (take i ?pre)))"
    by (rule update_groups_nth[OF srt _ assms]) simp
  finally show ?thesis by simp
qed

theorem update_groups_later_rows_witness:
  "groups (mandatory_frame
      [example_value 1 1 1 ''a'', example_value 2 2 1 ''b'', example_value 3 3 1 ''a'']
      [example_feature 7 1 ''w'' 3] ! 2) = 3"
proof -
  have len: "2 < length (mandatory_incremented
      [example_value 1 1 1 ''a'', example_value 2 2 1 ''b'', example_value 3 3 1 ''a'']
      [example_feature 7 1 ''w'' 3])"
    by code_simp
  have pre: "groups (mandatory_incremented
      [example_value 1 1 1 ''a'', example_value 2 2 1 ''b'', example_value 3 3 1 ''a'']
      [example_feature 7 1 ''w'' 3] ! 2) = 1"
    by code_simp
  have cnt: "length (filter (\<lambda>r. actor_id r = actor_id (mandatory_incremented
        [example_value 1 1 1 ''a'', example_value 2 2 1 ''b'', example_value 3 3 1 ''a'']
        [example_feature 7 1 ''w'' 3] ! 2) \<and> count r = 0)
      (take 2 (mandatory_incremented
        [example_value 1 1 1 ''a'', example_value 2 2 1 ''b'', example_value 3 3 1 ''a'']
        [example_feature 7 1 ''w'' 3]))) = 2"
    by code_simp
  show ?thesis
    unfolding update_groups_later_rows[OF len] pre cnt by simp
qed

text \<open>
  C4 as stated fails: a single message with a value never seen for its actor has
  count 0, and its groups are not incremented at that row.
\<close>

theorem update_groups_same_row_counterexample:
  "count (mandatory_incremented [example_value 1 1 1 ''hello''] [] ! 0) = 0
   \<and> groups (mandatory_frame [example_value 1 1 1 ''hello''] [] ! 0)
       \<noteq> groups (mandatory_incremented [example_value 1 1 1 ''hello''] [] ! 0) + 1"
  by code_simp

subsection \<open>Feature counts\<close>








subsection \<open>The analyzer\<close>











subsection \<open>The process cycle\<close>

text \<open>
  C2 on the code. Two messages arrive in the order of their ids, the first with the
  later timestamp. The value table that the actor upsert and every later step of the
  cycle receive is the plain concatenation, with timestamps 5 and then 3: the result
  of the sort is thrown away.
\<close>

theorem process_values_not_sorted:
  "process_values [example_profile] [example_message 1 5, example_message 2 3] =
     Inr [\<lparr>i_message_id = 1, i_timestamp = 5, i_actor_name = ''George'', i_field_id = 1,
           i_value = ''hello'', i_profile_id = 1\<rparr>,
          \<lparr>i_message_id = 2, i_timestamp = 3, i_actor_name = ''George'', i_field_id = 1,
           i_value = ''hello'', i_profile_id = 1\<rparr>]
   \<and> \<not> sorted (map i_timestamp
          [\<lparr>i_message_id = 1, i_timestamp = 5, i_actor_name = ''George'', i_field_id = 1,
            i_value = ''hello'', i_profile_id = 1\<rparr>,
           \<lparr>i_message_id = 2, i_timestamp = 3, i_actor_name = ''George'', i_field_id = 1,
            i_value = ''hello'', i_profile_id = 1\<rparr>])"
  by (simp add: process_values_def pa_concat_def identify_def generate_rows_def
      example_profile_def example_message_def)

text \<open>
  C8 on the code. With no buffered message the cycle does not complete: with a
  profile, the actor upsert is executed with an empty list of rows and fails; with no
  profile at all, the concatenation already fails.
\<close>

theorem process_empty_batch_raises:
  "process_actor_sync [example_profile] [] \<lparr>actor_rows = [], next_actor_id = 1\<rparr>
     = Inl IntegrityError
   \<and> process_actor_sync [] [] \<lparr>actor_rows = [], next_actor_id = 1\<rparr> = Inl ValueError"
  by (simp add: process_actor_sync_def get_actors_def execute_actor_insert_def
      drop_duplicates_def process_values_def pa_concat_def identify_def generate_rows_def)

subsection \<open>The collector loop\<close>









subsection \<open>Investigation indices\<close>


























end
